theory Spec2Isabelle
  imports Main
begin

section \<open>The data model of videostream/models.py\<close>

subsection \<open>Timestamps\<close>

text \<open>
  A value of Python's \<^verbatim>\<open>datetime.datetime\<close>. The constructor accepts only years
  \<^verbatim>\<open>MINYEAR = 1\<close> to \<^verbatim>\<open>MAXYEAR = 9999\<close>, months 1 to 12 and days 1 to 31 (fewer in
  short months), and raises \<^verbatim>\<open>ValueError\<close> otherwise, so every datetime the program
  holds satisfies \<open>valid_datetime\<close>.
\<close>

record datetime =
  year :: nat
  month :: nat
  day :: nat
  hour :: nat
  minute :: nat
  second :: nat
  microsecond :: nat

definition is_leap :: "nat \<Rightarrow> bool" where
  "is_leap y = (y mod 4 = 0 \<and> (y mod 100 \<noteq> 0 \<or> y mod 400 = 0))"

definition days_in_month :: "nat \<Rightarrow> nat \<Rightarrow> nat" where
  "days_in_month y m =
     (if m = 2 then (if is_leap y then 29 else 28)
      else if m = 4 \<or> m = 6 \<or> m = 9 \<or> m = 11 then 30 else 31)"

definition valid_datetime :: "datetime \<Rightarrow> bool" where
  "valid_datetime d =
     (1 \<le> year d \<and> year d \<le> 9999 \<and> 1 \<le> month d \<and> month d \<le> 12 \<and>
      1 \<le> day d \<and> day d \<le> days_in_month (year d) (month d) \<and>
      hour d < 24 \<and> minute d < 60 \<and> second d < 60 \<and> microsecond d < 1000000)"

subsection \<open>class Video\<close>

text \<open>
  The fields of \<^verbatim>\<open>class Video(models.Model)\<close>, lines 50 to 62, and the primary key
  \<^verbatim>\<open>id\<close> that the framework adds (\<open>None\<close> until the row is first stored). The three
  date fields are \<open>None\<close> on an instance that has not been given a value. The subclasses
  \<^verbatim>\<open>EmbedVideo\<close> and \<^verbatim>\<open>FlashVideo\<close> extend the record, so everything defined on a
  \<open>Video\<close> scheme is inherited by them as the methods of the class are.
\<close>

record Video =
  id_field :: "int option"
  title :: string
  slug :: string
  tags :: string
  categories :: "int list"
  description :: "string option"
  is_public :: bool
  allow_comments :: bool
  created_date :: "datetime option"
  modified_date :: "datetime option"
  publish_date :: "datetime option"

record EmbedVideo = Video +
  video_url :: "string option"
  video_code :: "string option"

record FlashVideo = Video +
  videoupload :: "string option"
  flvfile :: "string option"
  thumbnail :: "string option"
  encode :: bool

subsection \<open>Video.save\<close>

text \<open>
  \<^verbatim>\<open>
  def save(self, *args, **kwargs):
      self.modified_date = datetime.now()
      if self.publish_date == None and self.is_public:
          self.publish_date = datetime.now()
      super(Video, self).save(*args, **kwargs)
  \<close>
  The clock is read once at line 84 and, when the branch is taken, a second time at
  line 86: \<open>now_modified\<close> and \<open>now_publish\<close> are the values of these two readings.

  Line 87 calls \<^verbatim>\<open>Model.save\<close> of the framework, which is not in
  \<^verbatim>\<open>videostream/models.py\<close>. What the call does to the instance follows from the
  declarations of the fields:
  \<^verbatim>\<open>
  created_date = models.DateTimeField(auto_now_add=True)
  modified_date = models.DateTimeField(auto_now=True)
  publish_date = models.DateTimeField(null=True, blank=True)
  \<close>
  A field declared \<^verbatim>\<open>auto_now\<close> is given the time of the clock each time the row is
  written, replacing what the instance held; a field declared \<^verbatim>\<open>auto_now_add\<close> is given
  it when the row is inserted; the inserted row is given its primary key. No other field
  of lines 50 to 62 is assigned by the call. A \<open>store_write\<close> says which write the call
  performs, with the readings of the clock that the framework makes for it and, for an
  insertion, the key: \<open>Insert pk now_created now_auto\<close> or \<open>Update now_auto\<close>. When the
  store refuses the row (a slug that is taken) the call raises after the dates have been
  assigned.
\<close>

datatype store_write = Insert int datetime datetime | Update datetime

fun Model_save :: "store_write \<Rightarrow> 'a Video_scheme \<Rightarrow> 'a Video_scheme" where
  "Model_save (Insert pk now_created now_auto) self =
     self\<lparr>id_field := Some pk, created_date := Some now_created,
          modified_date := Some now_auto\<rparr>"
| "Model_save (Update now_auto) self = self\<lparr>modified_date := Some now_auto\<rparr>"

definition save ::
  "datetime \<Rightarrow> datetime \<Rightarrow> store_write \<Rightarrow> 'a Video_scheme \<Rightarrow> 'a Video_scheme" where
  "save now_modified now_publish wr self =
     (let self = self\<lparr>modified_date := Some now_modified\<rparr>;
          self = (if publish_date self = None \<and> is_public self
                  then self\<lparr>publish_date := Some now_publish\<rparr>
                  else self)
      in Model_save wr self)"

text \<open>
  A caller that edits and saves a record several times: before each call of \<open>save\<close> it
  assigns \<open>is_public\<close>, and each call makes its own readings of the clock and its own
  write.
\<close>

fun save_each ::
  "(bool \<times> datetime \<times> datetime \<times> store_write) list \<Rightarrow> 'a Video_scheme \<Rightarrow> 'a Video_scheme"
  where
  "save_each [] self = self"
| "save_each ((pub, now_modified, now_publish, wr) # rest) self =
     save_each rest (save now_modified now_publish wr (self\<lparr>is_public := pub\<rparr>))"

subsection \<open>strftime and str.lower\<close>

text \<open>
  The three directives that \<^verbatim>\<open>get_absolute_url\<close> passes to \<^verbatim>\<open>strftime\<close>, as
  CPython 3 formats them through the C library: \<^verbatim>\<open>%Y\<close> is the year as a decimal
  number, written without leading zeros, so that the year 999 gives \<^verbatim>\<open>999\<close>;
  \<^verbatim>\<open>%b\<close> is the abbreviated month name (Jan to Dec; the names of the C locale are
  modelled); \<^verbatim>\<open>%d\<close> is the day of the month filled with zeros to two digits.
  \<open>strftime_b\<close> reads its table at \<open>month - 1\<close>, which is within the table for every
  valid datetime.
\<close>

definition digit_char :: "nat \<Rightarrow> char" where
  "digit_char n = ''0123456789'' ! n"

fun str_nat :: "nat \<Rightarrow> string" where
  "str_nat n =
     (if n < 10 then [digit_char n] else str_nat (n div 10) @ [digit_char (n mod 10)])"

declare str_nat.simps [simp del]

definition zfill :: "nat \<Rightarrow> string \<Rightarrow> string" where
  "zfill width s = replicate (width - length s) CHR ''0'' @ s"

definition month_abbr :: "string list" where
  "month_abbr = [''Jan'', ''Feb'', ''Mar'', ''Apr'', ''May'', ''Jun'',
                 ''Jul'', ''Aug'', ''Sep'', ''Oct'', ''Nov'', ''Dec'']"

definition strftime_Y :: "datetime \<Rightarrow> string" where
  "strftime_Y d = str_nat (year d)"

definition strftime_b :: "datetime \<Rightarrow> string" where
  "strftime_b d = month_abbr ! (month d - 1)"

definition strftime_d :: "datetime \<Rightarrow> string" where
  "strftime_d d = zfill 2 (str_nat (day d))"

definition ascii_uppercase :: string where
  "ascii_uppercase = ''ABCDEFGHIJKLMNOPQRSTUVWXYZ''"

definition ascii_lowercase :: string where
  "ascii_lowercase = ''abcdefghijklmnopqrstuvwxyz''"

definition lower_char :: "char \<Rightarrow> char" where
  "lower_char c =
     (case map_of (zip ascii_uppercase ascii_lowercase) c of Some l \<Rightarrow> l | None \<Rightarrow> c)"

definition lower :: "string \<Rightarrow> string" where
  "lower s = map lower_char s"

subsection \<open>Video.get_absolute_url\<close>

text \<open>
  \<^verbatim>\<open>
  @models.permalink
  def get_absolute_url(self):
      if self.publish_date:
          return ('videostream_video_detail', (), {
              'year': self.publish_date.strftime("%Y"),
              'month': self.publish_date.strftime("%b").lower(),
              'day': self.publish_date.strftime("%d"),
              'slug': self.slug
          })
      else:
          return ('videostream_video_detail_id', [self.id])
  \<close>
  A datetime is always true in a condition, so the test is whether \<open>publish_date\<close> is
  set. The result is what the method gives the \<^verbatim>\<open>permalink\<close> decorator: the name of the
  route, its positional arguments and its keyword arguments in the order of the source
  (none in the second branch). Turning them into a path is the work of the URL
  configuration, which is not part of this file.
\<close>

type_synonym route = "string \<times> int option list \<times> (string \<times> string) list"

definition get_absolute_url :: "'a Video_scheme \<Rightarrow> route" where
  "get_absolute_url self =
     (case publish_date self of
        Some pd \<Rightarrow>
          (''videostream_video_detail'', [],
           [(''year'', strftime_Y pd),
            (''month'', lower (strftime_b pd)),
            (''day'', strftime_d pd),
            (''slug'', slug self)])
      | None \<Rightarrow> (''videostream_video_detail_id'', [id_field self], []))"

subsection \<open>class HTML5Video\<close>

definition OGG :: int where
  "OGG = 0"

definition WEBM :: int where
  "WEBM = 1"

definition MP4 :: int where
  "MP4 = 2"

definition FLASH :: int where
  "FLASH = 3"

definition VIDEO_TYPE :: "(int \<times> string) list" where
  "VIDEO_TYPE =
     [(OGG, ''video/ogg''),
      (WEBM, ''video/webm''),
      (MP4, ''vidoe/mp4''),
      (FLASH, ''video/flv'')]"

text \<open>
  \<open>basic_video\<close> holds the primary key of the \<^verbatim>\<open>BasicVideo\<close> row that the foreign key
  of line 117 refers to.
\<close>

record HTML5Video =
  video_type :: int
  video_file :: "string option"
  basic_video :: int

text \<open>
  Creating an instance: a field that the caller leaves out takes the default of its
  declaration, \<^verbatim>\<open>default=WEBM\<close> for \<open>video_type\<close> (line 107) and null for the file.
\<close>

definition HTML5Video_init :: "int option \<Rightarrow> string option \<Rightarrow> int \<Rightarrow> HTML5Video" where
  "HTML5Video_init given_type given_file owner =
     \<lparr>video_type = (case given_type of Some t \<Rightarrow> t | None \<Rightarrow> WEBM),
      video_file = given_file,
      basic_video = owner\<rparr>"

text \<open>
  \<^verbatim>\<open>get_video_type_display\<close> is the method the framework derives from
  \<^verbatim>\<open>choices=VIDEO_TYPE\<close>: the label the table gives the stored value, and the stored
  value itself when the table has no entry for it.
\<close>

datatype display = Label string | Raw int

definition get_video_type_display :: "HTML5Video \<Rightarrow> display" where
  "get_video_type_display self =
     (case map_of VIDEO_TYPE (video_type self) of
        Some label \<Rightarrow> Label label
      | None \<Rightarrow> Raw (video_type self))"

subsection \<open>Stored rows and the relation between HTML5Video and BasicVideo\<close>

datatype error = AttributeError | IndexError

text \<open>
  The rows of the two tables that the relation of lines 116 and 117 connects:
  \<^verbatim>\<open>
  # Allow for multiple video types for a single video
  basic_video = models.ForeignKey(BasicVideo)
  \<close>
  The payloads of a record are the rows whose \<open>basic_video\<close> is its primary key. The
  field is declared a foreign key and neither unique nor one-to-one, so nothing in
  lines 105 to 117 limits how many rows hold the same key.

  \<^verbatim>\<open>HTML5Video\<close> defines no method for storing a payload: a new payload is stored by
  the framework, which adds its row to the table whatever rows the table holds.
  \<open>HTML5Video_create\<close> is that step, and \<open>fold HTML5Video_create\<close> a sequence of them.
\<close>

record database =
  basicvideo_rows :: "Video list"
  html5video_rows :: "HTML5Video list"

definition payloads :: "database \<Rightarrow> int \<Rightarrow> HTML5Video list" where
  "payloads db pk = filter (\<lambda>h. basic_video h = pk) (html5video_rows db)"

definition HTML5Video_create :: "HTML5Video \<Rightarrow> database \<Rightarrow> database" where
  "HTML5Video_create h db = db\<lparr>html5video_rows := html5video_rows db @ [h]\<rparr>"

subsection \<open>BasicVideo.video_type\<close>

text \<open>
  \<^verbatim>\<open>
  class BasicVideo(Video):
      def video_type(self):
          return self.html5video.get_video_type_display()
  \<close>
  \<^verbatim>\<open>html5video\<close> is neither a field nor a method of \<^verbatim>\<open>BasicVideo\<close> or \<^verbatim>\<open>Video\<close>, so
  only the relation of line 117 could supply it. The only attribute that the relation
  adds to a \<^verbatim>\<open>BasicVideo\<close> is the reverse accessor of the foreign key, which the
  framework names after the referring model in lower case followed by \<^verbatim>\<open>_set\<close>; its
  value is the manager of the rows that refer to the instance. The framework would name
  the accessor \<^verbatim>\<open>html5video\<close>, and give a single instance, only for a one-to-one
  field. \<open>BasicVideo_related\<close> looks a name up among the attributes the relation adds.
  A manager has no method \<^verbatim>\<open>get_video_type_display\<close>; an \<^verbatim>\<open>HTML5Video\<close> instance
  has.
\<close>

datatype attribute = RelatedManager "HTML5Video list" | ModelInstance HTML5Video

definition reverse_accessor_name :: string where
  "reverse_accessor_name = ''html5video'' @ ''_set''"

definition BasicVideo_related :: "database \<Rightarrow> Video \<Rightarrow> string \<Rightarrow> error + attribute" where
  "BasicVideo_related db self name =
     (if name = reverse_accessor_name
      then (case id_field self of
              Some pk \<Rightarrow> Inr (RelatedManager (payloads db pk))
            | None \<Rightarrow> Inr (RelatedManager []))
      else Inl AttributeError)"

fun call_get_video_type_display :: "attribute \<Rightarrow> error + display" where
  "call_get_video_type_display (ModelInstance h) = Inr (get_video_type_display h)"
| "call_get_video_type_display (RelatedManager rows) = Inl AttributeError"

definition BasicVideo_video_type :: "database \<Rightarrow> Video \<Rightarrow> error + display" where
  "BasicVideo_video_type db self =
     (case BasicVideo_related db self ''html5video'' of
        Inl e \<Rightarrow> Inl e
      | Inr a \<Rightarrow> call_get_video_type_display a)"

text \<open>
  An instance of one of the four classes of videos, and the call
  \<^verbatim>\<open>obj.video_type()\<close> on it: only \<^verbatim>\<open>BasicVideo\<close> defines the method, and looking it
  up on an instance of another class raises \<^verbatim>\<open>AttributeError\<close>.
\<close>

datatype model_instance =
  Video_instance Video
  | BasicVideo_instance Video
  | EmbedVideo_instance EmbedVideo
  | FlashVideo_instance FlashVideo

fun video_type_call :: "database \<Rightarrow> model_instance \<Rightarrow> error + display" where
  "video_type_call db (BasicVideo_instance v) = BasicVideo_video_type db v"
| "video_type_call db (Video_instance v) = Inl AttributeError"
| "video_type_call db (EmbedVideo_instance v) = Inl AttributeError"
| "video_type_call db (FlashVideo_instance v) = Inl AttributeError"

fun html5video_payloads :: "database \<Rightarrow> model_instance \<Rightarrow> HTML5Video list" where
  "html5video_payloads db (BasicVideo_instance v) =
     (case id_field v of Some pk \<Rightarrow> payloads db pk | None \<Rightarrow> [])"
| "html5video_payloads db (Video_instance v) = []"
| "html5video_payloads db (EmbedVideo_instance v) = []"
| "html5video_payloads db (FlashVideo_instance v) = []"

subsection \<open>FlashVideo.get_player_size\<close>

text \<open>
  \<^verbatim>\<open>
  def get_player_size(self):
      size = getattr(settings, 'VIDEOSTREAM_SIZE', '320x240').split('x')
      return "width: %spx; height: %spx;" % (size[0], size[1])
  \<close>
  The settings are a map from names to string values; \<open>self\<close> is not read. \<open>split\<close> is
  \<^verbatim>\<open>str.split\<close> with a separator of one character: it cuts at every occurrence and
  keeps empty parts, so its result is never empty and \<^verbatim>\<open>size[0]\<close> always exists, while
  \<^verbatim>\<open>size[1]\<close> raises \<^verbatim>\<open>IndexError\<close> when there is one part only.
\<close>

type_synonym settings = "string \<Rightarrow> string option"

definition getattr_settings :: "settings \<Rightarrow> string \<Rightarrow> string \<Rightarrow> string" where
  "getattr_settings conf name dflt = (case conf name of Some v \<Rightarrow> v | None \<Rightarrow> dflt)"

fun split :: "char \<Rightarrow> string \<Rightarrow> string list" where
  "split sep [] = [[]]"
| "split sep (c # cs) =
     (if c = sep then [] # split sep cs
      else (let parts = split sep cs in (c # hd parts) # tl parts))"

definition get_player_size :: "settings \<Rightarrow> error + string" where
  "get_player_size conf =
     (let size = split CHR ''x'' (getattr_settings conf ''VIDEOSTREAM_SIZE'' ''320x240'')
      in if length size < 2 then Inl IndexError
         else Inr (''width: '' @ size ! 0 @ ''px; height: '' @ size ! 1 @ ''px;''))"

subsection \<open>Sample records\<close>

text \<open>
  Readings of the clock, records and settings on which the definitions are run.
\<close>

definition monday_noon :: datetime where
  "monday_noon =
     \<lparr>year = 2011, month = 3, day = 7, hour = 12, minute = 0, second = 0, microsecond = 0\<rparr>"

definition monday_noon_later :: datetime where
  "monday_noon_later =
     \<lparr>year = 2011, month = 3, day = 7, hour = 12, minute = 0, second = 0, microsecond = 25\<rparr>"

definition new_year_1999 :: datetime where
  "new_year_1999 =
     \<lparr>year = 1999, month = 1, day = 1, hour = 0, minute = 0, second = 0, microsecond = 0\<rparr>"

definition last_day_of_999 :: datetime where
  "last_day_of_999 =
     \<lparr>year = 999, month = 12, day = 31, hour = 23, minute = 59, second = 59, microsecond = 0\<rparr>"

definition draft_clip :: Video where
  "draft_clip =
     \<lparr>id_field = Some 7, title = ''Intro'', slug = ''intro-clip'', tags = [],
      categories = [], description = None, is_public = False, allow_comments = False,
      created_date = None, modified_date = None, publish_date = None\<rparr>"

definition public_clip :: Video where
  "public_clip = draft_clip\<lparr>is_public := True\<rparr>"

definition dated_clip :: Video where
  "dated_clip = draft_clip\<lparr>publish_date := Some new_year_1999\<rparr>"

definition ancient_clip :: Video where
  "ancient_clip = draft_clip\<lparr>publish_date := Some last_day_of_999\<rparr>"

definition embed_clip :: EmbedVideo where
  "embed_clip =
     \<lparr>id_field = Some 8, title = ''Talk'', slug = ''talk'', tags = [],
      categories = [], description = None, is_public = True, allow_comments = False,
      created_date = None, modified_date = None, publish_date = None,
      video_url = Some ''http://example.org/talk'', video_code = None\<rparr>"


definition webm_payload :: HTML5Video where
  "webm_payload = HTML5Video_init None (Some ''videos/html5/intro.webm'') 7"

definition one_clip_db :: database where
  "one_clip_db = \<lparr>basicvideo_rows = [draft_clip], html5video_rows = []\<rparr>"

definition hd_settings :: settings where
  "hd_settings = [''VIDEOSTREAM_SIZE'' \<mapsto> ''1920x1080'']"

definition bad_settings :: settings where
  "bad_settings = [''VIDEOSTREAM_SIZE'' \<mapsto> ''bad'']"

definition three_part_settings :: settings where
  "three_part_settings = [''VIDEOSTREAM_SIZE'' \<mapsto> ''1x2x3'']"

definition depth_settings :: settings where
  "depth_settings = [''VIDEOSTREAM_SIZE'' \<mapsto> ''640x480x24'']"

section \<open>Properties of Video.save\<close>

lemma Model_save_publish_date: "publish_date (Model_save wr v) = publish_date v"
  by (cases wr) simp_all

lemma save_publish_date:
  "publish_date (save t1 t2 wr v) =
     (if publish_date v = None \<and> is_public v then Some t2 else publish_date v)"
  by (simp add: save_def Let_def Model_save_publish_date)

lemma save_each_keeps_publish_date:
  "publish_date v = Some T \<Longrightarrow> publish_date (save_each steps v) = Some T"
proof (induction steps arbitrary: v)
  case Nil
  then show ?case by simp
next
  case (Cons step steps)
  obtain pub t1 t2 wr where step: "step = (pub, t1, t2, wr)"
    by (cases step) auto
  have "publish_date (save t1 t2 wr (v\<lparr>is_public := pub\<rparr>)) = Some T"
    using Cons.prems by (simp add: save_publish_date)
  then show ?case
    using Cons.IH step by simp
qed

text \<open>
  C1. When \<open>publish_date\<close> is \<open>None\<close> and \<open>is_public\<close> is true at the call, \<open>save\<close> sets
  \<open>publish_date\<close> to the time it reads from the clock (the reading of line 86); when
  \<open>publish_date\<close> is \<open>None\<close> and \<open>is_public\<close> is false, \<open>publish_date\<close> is still \<open>None\<close>
  after \<open>save\<close>. Both hold whatever write the framework performs at line 87.
\<close>

theorem save_publish_date_latch:
  "(publish_date v = None \<and> is_public v \<longrightarrow>
      publish_date (save now_modified now_publish wr v) = Some now_publish) \<and>
   (publish_date v = None \<and> \<not> is_public v \<longrightarrow>
      publish_date (save now_modified now_publish wr v) = None)"
  by (simp add: save_publish_date)

text \<open>
  The theorem at a public record and at a draft, both without a publish date.
\<close>

theorem save_publish_date_latch_witness:
  "publish_date public_clip = None \<and> is_public public_clip \<and>
   publish_date (save monday_noon monday_noon_later (Update monday_noon_later) public_clip) =
     Some monday_noon_later \<and>
   publish_date draft_clip = None \<and> \<not> is_public draft_clip \<and>
   publish_date (save monday_noon monday_noon_later (Update monday_noon_later) draft_clip) = None"
proof -
  have a: "publish_date public_clip = None \<and> is_public public_clip"
    by (simp add: public_clip_def draft_clip_def)
  have b: "publish_date draft_clip = None \<and> \<not> is_public draft_clip"
    by (simp add: draft_clip_def)
  from a save_publish_date_latch [where v = public_clip]
  have c: "publish_date
             (save monday_noon monday_noon_later (Update monday_noon_later) public_clip) =
           Some monday_noon_later"
    by blast
  from b save_publish_date_latch [where v = draft_clip]
  have d: "publish_date
             (save monday_noon monday_noon_later (Update monday_noon_later) draft_clip) = None"
    by blast
  from a b c d show ?thesis by blast
qed

text \<open>
  C2. Once \<open>publish_date\<close> holds a timestamp \<open>T\<close>, whatever its value, a call of \<open>save\<close>
  leaves it equal to \<open>T\<close>, and so does every sequence of calls, whatever \<open>is_public\<close> is
  set to before each of them and whatever write the framework performs in each.
\<close>

theorem publish_date_never_overwritten:
  "publish_date v = Some T \<Longrightarrow>
     publish_date (save now_modified now_publish wr v) = Some T \<and>
     publish_date (save_each steps v) = Some T"
  by (simp add: save_publish_date save_each_keeps_publish_date)

text \<open>
  The theorem at a record dated in 1999, saved once and then three more times while
  \<open>is_public\<close> is switched on, off and on again.
\<close>

theorem publish_date_never_overwritten_witness:
  "publish_date dated_clip = Some new_year_1999 \<and>
   publish_date (save monday_noon monday_noon_later (Update monday_noon_later) dated_clip) =
     Some new_year_1999 \<and>
   publish_date
     (save_each [(True, monday_noon, monday_noon, Insert 7 monday_noon monday_noon),
                 (False, monday_noon, monday_noon_later, Update monday_noon_later),
                 (True, monday_noon_later, monday_noon_later, Update monday_noon_later)]
        dated_clip) = Some new_year_1999"
proof -
  have a: "publish_date dated_clip = Some new_year_1999"
    by (simp add: dated_clip_def)
  from publish_date_never_overwritten [OF a] a show ?thesis
    by blast
qed


section \<open>Properties of Video.get_absolute_url\<close>

lemma str_nat_1: "n < 10 \<Longrightarrow> str_nat n = [digit_char n]"
  by (simp add: str_nat.simps)

lemma str_nat_2:
  "10 \<le> n \<Longrightarrow> n < 100 \<Longrightarrow> str_nat n = [digit_char (n div 10), digit_char (n mod 10)]"
  by (subst str_nat.simps) (simp add: str_nat_1)

lemma div_10_10: "(n::nat) div 10 div 10 = n div 100"
  by (simp add: div_mult2_eq [symmetric])

lemma div_10_100: "(n::nat) div 10 div 100 = n div 1000"
  by (simp add: div_mult2_eq [symmetric])

lemma str_nat_3:
  "100 \<le> n \<Longrightarrow> n < 1000 \<Longrightarrow>
     str_nat n = [digit_char (n div 100), digit_char (n div 10 mod 10), digit_char (n mod 10)]"
  by (subst str_nat.simps) (simp add: str_nat_2 div_10_10)

lemma str_nat_4:
  "1000 \<le> n \<Longrightarrow> n < 10000 \<Longrightarrow>
     str_nat n = [digit_char (n div 1000), digit_char (n div 100 mod 10),
                  digit_char (n div 10 mod 10), digit_char (n mod 10)]"
  by (subst str_nat.simps) (simp add: str_nat_3 div_10_10 div_10_100)

lemma digit_char_0: "digit_char 0 = CHR ''0''"
  by (simp add: digit_char_def)

lemma zfill_2_str_nat:
  assumes "n < 100"
  shows "zfill 2 (str_nat n) = [digit_char (n div 10), digit_char (n mod 10)]"
proof (cases "n < 10")
  case True
  then show ?thesis by (simp add: zfill_def str_nat_1 digit_char_0)
next
  case False
  then show ?thesis using assms by (simp add: zfill_def str_nat_2)
qed

lemma days_in_month_le: "days_in_month y m \<le> 31"
  by (simp add: days_in_month_def)

lemma lower_month_abbr:
  "map lower month_abbr =
     [''jan'', ''feb'', ''mar'', ''apr'', ''may'', ''jun'',
      ''jul'', ''aug'', ''sep'', ''oct'', ''nov'', ''dec'']"
  by (simp add: month_abbr_def lower_def lower_char_def ascii_uppercase_def ascii_lowercase_def)

lemma lower_strftime_b:
  assumes "1 \<le> month d" "month d \<le> 12"
  shows "lower (strftime_b d) =
           [''jan'', ''feb'', ''mar'', ''apr'', ''may'', ''jun'',
            ''jul'', ''aug'', ''sep'', ''oct'', ''nov'', ''dec''] ! (month d - 1)"
proof -
  have "month d - 1 < length month_abbr"
    using assms by (simp add: month_abbr_def)
  then have "lower (month_abbr ! (month d - 1)) = map lower month_abbr ! (month d - 1)"
    by simp
  then show ?thesis
    by (simp add: strftime_b_def lower_month_abbr)
qed

text \<open>
  C4, as stated, fails: for a record published in the year 999 the key of the year is
  \<^verbatim>\<open>999\<close>, three digits and not four.
\<close>

theorem get_absolute_url_year_999:
  "publish_date ancient_clip = Some last_day_of_999 \<and> valid_datetime last_day_of_999 \<and>
   get_absolute_url ancient_clip =
     (''videostream_video_detail'', [],
      [(''year'', ''999''), (''month'', ''dec''), (''day'', ''31''), (''slug'', ''intro-clip'')]) \<and>
   length (strftime_Y last_day_of_999) = 3"
  by (simp add: get_absolute_url_def ancient_clip_def draft_clip_def last_day_of_999_def
      valid_datetime_def days_in_month_def strftime_Y_def strftime_b_def strftime_d_def
      month_abbr_def lower_def lower_char_def ascii_uppercase_def ascii_lowercase_def
      zfill_def str_nat_3 str_nat_2 digit_char_def)

text \<open>
  C4, amended. \<open>get_absolute_url\<close> depends on the record alone. For a record whose
  \<open>publish_date\<close> is set it gives the dated route, keyed by the year as a decimal number,
  the lower-case three-letter abbreviation of the month and the two digits of the day,
  all taken from \<open>publish_date\<close>, and by the stored slug; the year has four digits when
  it is 1000 or later. For a record whose \<open>publish_date\<close> is unset it gives the route by
  identifier. The route depends on no other field: two records, of whatever class, with
  the same \<open>publish_date\<close> and slug, or without \<open>publish_date\<close> and with the same
  identifier, get the same route.
\<close>

theorem get_absolute_url_route:
  "(publish_date v = Some d \<and> valid_datetime d \<longrightarrow>
      get_absolute_url v =
        (''videostream_video_detail'', [],
         [(''year'', str_nat (year d)),
          (''month'', [''jan'', ''feb'', ''mar'', ''apr'', ''may'', ''jun'',
                       ''jul'', ''aug'', ''sep'', ''oct'', ''nov'', ''dec''] ! (month d - 1)),
          (''day'', [digit_char (day d div 10), digit_char (day d mod 10)]),
          (''slug'', slug v)])) \<and>
   (publish_date v = Some d \<and> valid_datetime d \<and> 1000 \<le> year d \<longrightarrow>
      get_absolute_url v =
        (''videostream_video_detail'', [],
         [(''year'', [digit_char (year d div 1000), digit_char (year d div 100 mod 10),
                      digit_char (year d div 10 mod 10), digit_char (year d mod 10)]),
          (''month'', [''jan'', ''feb'', ''mar'', ''apr'', ''may'', ''jun'',
                       ''jul'', ''aug'', ''sep'', ''oct'', ''nov'', ''dec''] ! (month d - 1)),
          (''day'', [digit_char (day d div 10), digit_char (day d mod 10)]),
          (''slug'', slug v)])) \<and>
   (publish_date v = None \<longrightarrow>
      get_absolute_url v = (''videostream_video_detail_id'', [id_field v], [])) \<and>
   (publish_date v = Some d \<and> publish_date w = Some d \<and> slug v = slug w \<longrightarrow>
      get_absolute_url v = get_absolute_url w) \<and>
   (publish_date v = None \<and> publish_date w = None \<and> id_field v = id_field w \<longrightarrow>
      get_absolute_url v = get_absolute_url w)"
proof -
  have dated: "get_absolute_url v =
        (''videostream_video_detail'', [],
         [(''year'', str_nat (year d)),
          (''month'', [''jan'', ''feb'', ''mar'', ''apr'', ''may'', ''jun'',
                       ''jul'', ''aug'', ''sep'', ''oct'', ''nov'', ''dec''] ! (month d - 1)),
          (''day'', [digit_char (day d div 10), digit_char (day d mod 10)]),
          (''slug'', slug v)])"
    if pd: "publish_date v = Some d" and ok: "valid_datetime d"
  proof -
    have m: "1 \<le> month d" "month d \<le> 12"
      using ok by (simp_all add: valid_datetime_def)
    have "day d \<le> days_in_month (year d) (month d)"
      using ok by (simp add: valid_datetime_def)
    then have dd: "day d < 100"
      using days_in_month_le [of "year d" "month d"] by linarith
    show ?thesis
      by (simp add: get_absolute_url_def pd strftime_Y_def strftime_d_def
          zfill_2_str_nat [OF dd] lower_strftime_b [OF m])
  qed
  have four: "str_nat (year d) =
        [digit_char (year d div 1000), digit_char (year d div 100 mod 10),
         digit_char (year d div 10 mod 10), digit_char (year d mod 10)]"
    if ok: "valid_datetime d" and late: "1000 \<le> year d"
  proof -
    have "year d < 10000"
      using ok by (simp add: valid_datetime_def)
    with late show ?thesis
      by (rule str_nat_4)
  qed
  have undated: "get_absolute_url v = (''videostream_video_detail_id'', [id_field v], [])"
    if "publish_date v = None"
    using that by (simp add: get_absolute_url_def)
  have same_dated: "get_absolute_url v = get_absolute_url w"
    if "publish_date v = Some d" "publish_date w = Some d" "slug v = slug w"
    using that by (simp add: get_absolute_url_def)
  have same_undated: "get_absolute_url v = get_absolute_url w"
    if "publish_date v = None" "publish_date w = None" "id_field v = id_field w"
    using that by (simp add: get_absolute_url_def)
  have dated_four: "get_absolute_url v =
        (''videostream_video_detail'', [],
         [(''year'', [digit_char (year d div 1000), digit_char (year d div 100 mod 10),
                      digit_char (year d div 10 mod 10), digit_char (year d mod 10)]),
          (''month'', [''jan'', ''feb'', ''mar'', ''apr'', ''may'', ''jun'',
                       ''jul'', ''aug'', ''sep'', ''oct'', ''nov'', ''dec''] ! (month d - 1)),
          (''day'', [digit_char (day d div 10), digit_char (day d mod 10)]),
          (''slug'', slug v)])"
    if "publish_date v = Some d" "valid_datetime d" "1000 \<le> year d"
    using dated [OF that(1,2)] four [OF that(2,3)] by simp
  from dated dated_four undated same_dated same_undated show ?thesis
    by blast
qed

text \<open>
  The theorem at a record published on 1 January 1999, at a draft with the identifier
  7, and at the draft and an \<^verbatim>\<open>EmbedVideo\<close> given the draft's identifier, neither with
  a publish date.
\<close>

theorem get_absolute_url_route_witness:
  "publish_date dated_clip = Some new_year_1999 \<and> valid_datetime new_year_1999 \<and>
   1000 \<le> year new_year_1999 \<and>
   get_absolute_url dated_clip =
     (''videostream_video_detail'', [],
      [(''year'', ''1999''), (''month'', ''jan''), (''day'', ''01''), (''slug'', ''intro-clip'')]) \<and>
   publish_date draft_clip = None \<and>
   get_absolute_url draft_clip = (''videostream_video_detail_id'', [Some 7], []) \<and>
   publish_date (embed_clip\<lparr>id_field := Some 7\<rparr>) = None \<and>
   id_field draft_clip = id_field (embed_clip\<lparr>id_field := Some 7\<rparr>) \<and>
   get_absolute_url draft_clip = get_absolute_url (embed_clip\<lparr>id_field := Some 7\<rparr>)"
proof -
  have a: "publish_date dated_clip = Some new_year_1999 \<and> valid_datetime new_year_1999 \<and>
           1000 \<le> year new_year_1999"
    by (simp add: dated_clip_def draft_clip_def new_year_1999_def valid_datetime_def
        days_in_month_def)
  have b: "publish_date draft_clip = None"
    by (simp add: draft_clip_def)
  have c: "publish_date (embed_clip\<lparr>id_field := Some 7\<rparr>) = None \<and>
           id_field draft_clip = id_field (embed_clip\<lparr>id_field := Some 7\<rparr>)"
    by (simp add: embed_clip_def draft_clip_def)
  note r = get_absolute_url_route [where v = dated_clip and d = new_year_1999]
  note s = get_absolute_url_route
    [where v = draft_clip and w = "embed_clip\<lparr>id_field := Some 7\<rparr>"]
  from a r have "get_absolute_url dated_clip =
     (''videostream_video_detail'', [],
      [(''year'', [digit_char (year new_year_1999 div 1000),
                   digit_char (year new_year_1999 div 100 mod 10),
                   digit_char (year new_year_1999 div 10 mod 10),
                   digit_char (year new_year_1999 mod 10)]),
       (''month'', [''jan'', ''feb'', ''mar'', ''apr'', ''may'', ''jun'',
                    ''jul'', ''aug'', ''sep'', ''oct'', ''nov'', ''dec'']
                   ! (month new_year_1999 - 1)),
       (''day'', [digit_char (day new_year_1999 div 10), digit_char (day new_year_1999 mod 10)]),
       (''slug'', slug dated_clip)])"
    by blast
  then have d: "get_absolute_url dated_clip =
     (''videostream_video_detail'', [],
      [(''year'', ''1999''), (''month'', ''jan''), (''day'', ''01''), (''slug'', ''intro-clip'')])"
    by (simp add: new_year_1999_def digit_char_def dated_clip_def draft_clip_def)
  from b s
  have "get_absolute_url draft_clip = (''videostream_video_detail_id'', [id_field draft_clip], [])"
    by blast
  then have e: "get_absolute_url draft_clip = (''videostream_video_detail_id'', [Some 7], [])"
    by (simp add: draft_clip_def)
  from b c s
  have f: "get_absolute_url draft_clip = get_absolute_url (embed_clip\<lparr>id_field := Some 7\<rparr>)"
    by blast
  from a b c d e f show ?thesis by blast
qed

section \<open>Properties of the video type\<close>

lemma get_video_type_display_table:
  "get_video_type_display (h\<lparr>video_type := OGG\<rparr>) = Label ''video/ogg''"
  "get_video_type_display (h\<lparr>video_type := WEBM\<rparr>) = Label ''video/webm''"
  "get_video_type_display (h\<lparr>video_type := FLASH\<rparr>) = Label ''video/flv''"
  by (simp_all add: get_video_type_display_def VIDEO_TYPE_def OGG_def WEBM_def MP4_def FLASH_def)

lemma html5video_is_no_attribute: "BasicVideo_related db v ''html5video'' = Inl AttributeError"
  by (simp add: BasicVideo_related_def reverse_accessor_name_def)

lemma BasicVideo_video_type_raises: "BasicVideo_video_type db v = Inl AttributeError"
  by (simp add: BasicVideo_video_type_def html5video_is_no_attribute)

lemma video_type_call_raises: "video_type_call db obj = Inl AttributeError"
  by (cases obj) (simp_all add: BasicVideo_video_type_raises)

text \<open>
  C5. The table gives OGG, WEBM and FLASH the labels video/ogg, video/webm and
  video/flv (\<open>get_video_type_display_table\<close>), but for MP4 the label it gives is
  \<^verbatim>\<open>vidoe/mp4\<close>, with two letters exchanged, and not video/mp4.
\<close>

theorem get_video_type_display_MP4:
  "get_video_type_display (h\<lparr>video_type := MP4\<rparr>) = Label ''vidoe/mp4'' \<and>
   get_video_type_display (h\<lparr>video_type := MP4\<rparr>) \<noteq> Label ''video/mp4''"
  by (simp add: get_video_type_display_def VIDEO_TYPE_def OGG_def WEBM_def MP4_def FLASH_def)

text \<open>
  C6. On every record without an \<^verbatim>\<open>HTML5Video\<close> payload the call of \<open>video_type\<close> fails
  with \<open>AttributeError\<close>; the method exists on \<^verbatim>\<open>BasicVideo\<close> only, so on an instance
  of the base class \<^verbatim>\<open>Video\<close>, of \<^verbatim>\<open>EmbedVideo\<close> or of \<^verbatim>\<open>FlashVideo\<close> the call fails
  whatever the tables hold.
\<close>

theorem video_type_without_payload:
  "(html5video_payloads db obj = [] \<longrightarrow> video_type_call db obj = Inl AttributeError) \<and>
   video_type_call db (Video_instance v) = Inl AttributeError \<and>
   video_type_call db (EmbedVideo_instance e) = Inl AttributeError \<and>
   video_type_call db (FlashVideo_instance f) = Inl AttributeError"
  by (simp add: video_type_call_raises)

text \<open>
  The theorem at an \<^verbatim>\<open>EmbedVideo\<close> instance and at a \<^verbatim>\<open>BasicVideo\<close> instance for which
  no \<^verbatim>\<open>HTML5Video\<close> row is stored.
\<close>

theorem video_type_without_payload_witness:
  "html5video_payloads one_clip_db (EmbedVideo_instance embed_clip) = [] \<and>
   video_type_call one_clip_db (EmbedVideo_instance embed_clip) = Inl AttributeError \<and>
   html5video_payloads one_clip_db (BasicVideo_instance draft_clip) = [] \<and>
   video_type_call one_clip_db (BasicVideo_instance draft_clip) = Inl AttributeError"
proof -
  have a: "html5video_payloads one_clip_db (EmbedVideo_instance embed_clip) = []"
    by simp
  have b: "html5video_payloads one_clip_db (BasicVideo_instance draft_clip) = []"
    by (simp add: draft_clip_def one_clip_db_def payloads_def)
  from a video_type_without_payload
    [where db = one_clip_db and obj = "EmbedVideo_instance embed_clip"]
  have c: "video_type_call one_clip_db (EmbedVideo_instance embed_clip) = Inl AttributeError"
    by blast
  from b video_type_without_payload
    [where db = one_clip_db and obj = "BasicVideo_instance draft_clip"]
  have d: "video_type_call one_clip_db (BasicVideo_instance draft_clip) = Inl AttributeError"
    by blast
  from a b c d show ?thesis by blast
qed

text \<open>
  An \<^verbatim>\<open>HTML5Video\<close> created without a \<open>video_type\<close> has the type WEBM, and the label
  that the table gives that payload is video/webm.
\<close>

lemma HTML5Video_default_video_type:
  "video_type (HTML5Video_init None file owner) = WEBM \<and>
   get_video_type_display (HTML5Video_init None file owner) = Label ''video/webm''"
  by (simp add: HTML5Video_init_def get_video_type_display_def VIDEO_TYPE_def
      OGG_def WEBM_def MP4_def FLASH_def)

text \<open>
  C10. A payload created without a \<open>video_type\<close> and stored for the record with the
  identifier 7 has the type WEBM and is the one payload of that record, but the call of
  \<open>video_type\<close> on the record does not return the label of WEBM: it fails with
  \<open>AttributeError\<close>, as it does on every record (\<open>video_type_call_raises\<close>).
\<close>

theorem default_payload_video_type_raises:
  "video_type webm_payload = WEBM \<and>
   html5video_payloads (HTML5Video_create webm_payload one_clip_db)
     (BasicVideo_instance draft_clip) = [webm_payload] \<and>
   video_type_call (HTML5Video_create webm_payload one_clip_db)
     (BasicVideo_instance draft_clip) = Inl AttributeError \<and>
   video_type_call (HTML5Video_create webm_payload one_clip_db)
     (BasicVideo_instance draft_clip) \<noteq> Inr (Label ''video/webm'')"
  by (simp add: BasicVideo_video_type_raises webm_payload_def HTML5Video_init_def
      HTML5Video_create_def one_clip_db_def draft_clip_def payloads_def)

section \<open>Properties of FlashVideo.get_player_size\<close>

lemma split_not_Nil: "split sep s \<noteq> []"
  by (induction s) (simp_all add: Let_def)

lemma length_split: "length (split sep s) = Suc (length (filter (\<lambda>c. c = sep) s))"
proof (induction s)
  case Nil
  then show ?case by simp
next
  case (Cons c cs)
  have "length (tl (split sep cs)) = length (split sep cs) - 1"
    by simp
  with Cons split_not_Nil [of sep cs] show ?case
    by (simp add: Let_def)
qed

lemma length_split_less_2: "length (split sep s) < 2 \<longleftrightarrow> sep \<notin> set s"
proof -
  have "filter (\<lambda>c. c = sep) s = [] \<longleftrightarrow> sep \<notin> set s"
    by (auto simp: filter_empty_conv)
  then show ?thesis
    by (simp add: length_split)
qed

lemma split_without_sep: "sep \<notin> set s \<Longrightarrow> split sep s = [s]"
  by (induction s) (auto simp: Let_def)

lemma split_at_first_sep:
  "sep \<notin> set w \<Longrightarrow> split sep (w @ sep # rest) = w # split sep rest"
  by (induction w) (auto simp: Let_def)

lemma get_player_size_two_parts:
  assumes "conf ''VIDEOSTREAM_SIZE'' = Some (w @ ''x'' @ h)"
    and "CHR ''x'' \<notin> set w" and "CHR ''x'' \<notin> set h"
  shows "get_player_size conf = Inr (''width: '' @ w @ ''px; height: '' @ h @ ''px;'')"
proof -
  have "split CHR ''x'' (w @ CHR ''x'' # h) = [w, h]"
    using assms(2,3) by (simp add: split_at_first_sep split_without_sep)
  then show ?thesis
    using assms(1) by (simp add: get_player_size_def getattr_settings_def)
qed

lemma get_player_size_default:
  assumes "conf ''VIDEOSTREAM_SIZE'' = None"
  shows "get_player_size conf = Inr ''width: 320px; height: 240px;''"
  using assms by (simp add: get_player_size_def getattr_settings_def)

text \<open>
  C7. When \<^verbatim>\<open>VIDEOSTREAM_SIZE\<close> is a width and a height on either side of the
  delimiter x (neither holding an x of its own), \<open>get_player_size\<close> returns
  \<^verbatim>\<open>width: <width>px; height: <height>px;\<close>; when the setting is absent the default
  320x240 is used and the result is \<^verbatim>\<open>width: 320px; height: 240px;\<close>.
\<close>

theorem get_player_size_style:
  "(conf ''VIDEOSTREAM_SIZE'' = Some (w @ ''x'' @ h) \<and>
    CHR ''x'' \<notin> set w \<and> CHR ''x'' \<notin> set h \<longrightarrow>
      get_player_size conf = Inr (''width: '' @ w @ ''px; height: '' @ h @ ''px;'')) \<and>
   (conf ''VIDEOSTREAM_SIZE'' = None \<longrightarrow>
      get_player_size conf = Inr ''width: 320px; height: 240px;'')"
  using get_player_size_two_parts get_player_size_default by blast

text \<open>
  The theorem at the setting 1920x1080 and at settings without the key.
\<close>

theorem get_player_size_style_witness:
  "hd_settings ''VIDEOSTREAM_SIZE'' = Some (''1920'' @ ''x'' @ ''1080'') \<and>
   CHR ''x'' \<notin> set ''1920'' \<and> CHR ''x'' \<notin> set ''1080'' \<and>
   get_player_size hd_settings = Inr ''width: 1920px; height: 1080px;'' \<and>
   Map.empty ''VIDEOSTREAM_SIZE'' = (None :: string option) \<and>
   get_player_size Map.empty = Inr ''width: 320px; height: 240px;''"
proof -
  have a: "hd_settings ''VIDEOSTREAM_SIZE'' = Some (''1920'' @ ''x'' @ ''1080'') \<and>
           CHR ''x'' \<notin> set ''1920'' \<and> CHR ''x'' \<notin> set ''1080''"
    by (simp add: hd_settings_def)
  have b: "Map.empty ''VIDEOSTREAM_SIZE'' = (None :: string option)"
    by simp
  from a get_player_size_style [where conf = hd_settings and w = "''1920''" and h = "''1080''"]
  have "get_player_size hd_settings =
          Inr (''width: '' @ ''1920'' @ ''px; height: '' @ ''1080'' @ ''px;'')"
    by blast
  then have c: "get_player_size hd_settings = Inr ''width: 1920px; height: 1080px;''"
    by simp
  from b get_player_size_style [where conf = Map.empty]
  have d: "get_player_size Map.empty = Inr ''width: 320px; height: 240px;''"
    by blast
  from a b c d show ?thesis by blast
qed

lemma hd_split: "hd (split sep s) = takeWhile (\<lambda>c. c \<noteq> sep) s"
  by (induction s) (simp_all add: Let_def)

lemma split_with_sep:
  "sep \<in> set s \<Longrightarrow>
     split sep s =
       takeWhile (\<lambda>c. c \<noteq> sep) s # split sep (tl (dropWhile (\<lambda>c. c \<noteq> sep) s))"
  by (induction s) (auto simp: Let_def)

lemma split_first_two:
  assumes "sep \<in> set s"
  shows "split sep s ! 0 = takeWhile (\<lambda>c. c \<noteq> sep) s"
    and "split sep s ! 1 =
           takeWhile (\<lambda>c. c \<noteq> sep) (tl (dropWhile (\<lambda>c. c \<noteq> sep) s))"
proof -
  let ?rest = "tl (dropWhile (\<lambda>c. c \<noteq> sep) s)"
  have s: "split sep s = takeWhile (\<lambda>c. c \<noteq> sep) s # split sep ?rest"
    using assms by (rule split_with_sep)
  show "split sep s ! 0 = takeWhile (\<lambda>c. c \<noteq> sep) s"
    by (simp add: s)
  have "split sep s ! 1 = hd (split sep ?rest)"
    using split_not_Nil [of sep ?rest] by (simp add: s hd_conv_nth)
  then show "split sep s ! 1 = takeWhile (\<lambda>c. c \<noteq> sep) ?rest"
    by (simp add: hd_split)
qed

text \<open>
  C8, as stated, fails: the setting 1x2x3 splits into three parts, and
  \<open>get_player_size\<close> does not fail on it; it uses the first two.
\<close>

theorem get_player_size_three_parts:
  "length (split CHR ''x'' (getattr_settings three_part_settings ''VIDEOSTREAM_SIZE'' ''320x240''))
     = 3 \<and>
   get_player_size three_part_settings = Inr ''width: 1px; height: 2px;''"
  by (simp add: get_player_size_def getattr_settings_def three_part_settings_def Let_def)

text \<open>
  C8, amended. \<open>get_player_size\<close> fails exactly when the value of the setting holds no
  x, and the failure is the \<open>IndexError\<close> of reading the second part. On every value
  that holds an x, however many parts it splits into, it returns the style built from
  the first two parts: the width is the text before the first x, the height the text
  between the first x and the second, or the end of the value when there is no second.
\<close>

theorem get_player_size_first_two_parts:
  "get_player_size conf =
     (if CHR ''x'' \<in> set (getattr_settings conf ''VIDEOSTREAM_SIZE'' ''320x240'')
      then Inr (''width: ''
                @ takeWhile (\<lambda>c. c \<noteq> CHR ''x'')
                    (getattr_settings conf ''VIDEOSTREAM_SIZE'' ''320x240'')
                @ ''px; height: ''
                @ takeWhile (\<lambda>c. c \<noteq> CHR ''x'')
                    (tl (dropWhile (\<lambda>c. c \<noteq> CHR ''x'')
                           (getattr_settings conf ''VIDEOSTREAM_SIZE'' ''320x240'')))
                @ ''px;'')
      else Inl IndexError) \<and>
   (get_player_size conf = Inl IndexError) =
     (CHR ''x'' \<notin> set (getattr_settings conf ''VIDEOSTREAM_SIZE'' ''320x240''))"
proof -
  let ?v = "getattr_settings conf ''VIDEOSTREAM_SIZE'' ''320x240''"
  show ?thesis
  proof (cases "CHR ''x'' \<in> set ?v")
    case True
    then have long: "\<not> length (split CHR ''x'' ?v) < 2"
      by (simp add: length_split_less_2)
    have first: "split CHR ''x'' ?v ! 0 = takeWhile (\<lambda>c. c \<noteq> CHR ''x'') ?v"
      using True by (rule split_first_two)
    have "split CHR ''x'' ?v ! 1 =
            takeWhile (\<lambda>c. c \<noteq> CHR ''x'') (tl (dropWhile (\<lambda>c. c \<noteq> CHR ''x'') ?v))"
      using True by (rule split_first_two)
    then have second: "split CHR ''x'' ?v ! Suc 0 =
            takeWhile (\<lambda>c. c \<noteq> CHR ''x'') (tl (dropWhile (\<lambda>c. c \<noteq> CHR ''x'') ?v))"
      by simp
    from True long show ?thesis
      by (simp add: get_player_size_def Let_def first second)
  next
    case False
    then have "length (split CHR ''x'' ?v) < 2"
      by (simp add: length_split_less_2)
    with False show ?thesis
      by (simp add: get_player_size_def Let_def)
  qed
qed

text \<open>
  The theorem at the setting \<^verbatim>\<open>bad\<close>, which holds no x, and at the setting
  640x480x24, which splits into three parts.
\<close>

theorem get_player_size_first_two_parts_witness:
  "CHR ''x'' \<notin> set (getattr_settings bad_settings ''VIDEOSTREAM_SIZE'' ''320x240'') \<and>
   get_player_size bad_settings = Inl IndexError \<and>
   CHR ''x'' \<in> set (getattr_settings depth_settings ''VIDEOSTREAM_SIZE'' ''320x240'') \<and>
   get_player_size depth_settings = Inr ''width: 640px; height: 480px;''"
proof -
  have a: "CHR ''x'' \<notin> set (getattr_settings bad_settings ''VIDEOSTREAM_SIZE'' ''320x240'')"
    by (simp add: getattr_settings_def bad_settings_def)
  have v: "getattr_settings depth_settings ''VIDEOSTREAM_SIZE'' ''320x240'' = ''640x480x24''"
    by (simp add: getattr_settings_def depth_settings_def)
  have b: "CHR ''x'' \<in> set (getattr_settings depth_settings ''VIDEOSTREAM_SIZE'' ''320x240'')"
    by (simp add: v)
  from a get_player_size_first_two_parts [where conf = bad_settings]
  have c: "get_player_size bad_settings = Inl IndexError"
    by simp
  from b get_player_size_first_two_parts [where conf = depth_settings]
  have "get_player_size depth_settings =
          Inr (''width: ''
               @ takeWhile (\<lambda>c. c \<noteq> CHR ''x'')
                   (getattr_settings depth_settings ''VIDEOSTREAM_SIZE'' ''320x240'')
               @ ''px; height: ''
               @ takeWhile (\<lambda>c. c \<noteq> CHR ''x'')
                   (tl (dropWhile (\<lambda>c. c \<noteq> CHR ''x'')
                          (getattr_settings depth_settings ''VIDEOSTREAM_SIZE'' ''320x240'')))
               @ ''px;'')"
    by simp
  then have d: "get_player_size depth_settings = Inr ''width: 640px; height: 480px;''"
    by (simp add: v)
  from a b c d show ?thesis by blast
qed

section \<open>Properties of the relation between HTML5Video and BasicVideo\<close>








end
